theory Spec2Isabelle
  imports Main
begin

section \<open>The translate_file_reference extension module\<close>

text \<open>
  A shallow embedding of \<^verbatim>\<open>translate_file_reference_module.c\<close> and its header: the
  native handler \<^verbatim>\<open>translate_file_reference_translate_url\<close>, the method table and the
  module initialisation \<^verbatim>\<open>inittranslate_file_reference\<close>.

  A \<^verbatim>\<open>PyObject *\<close> is a \<open>pyobj option\<close>, with \<open>None\<close> for \<^verbatim>\<open>NULL\<close>. The C code
  only calls into the interpreter and into the resolver, so the state records, next to
  the file's static \<^verbatim>\<open>module\<close> and the attributes of the loaded modules, the sequence
  of these calls.
\<close>

subsection \<open>Objects\<close>

text \<open>The one C object whose address the module hands out: the static capability struct.\<close>

datatype c_address = Addr_Py_translate_file_reference_api

text \<open>The one native handler a method table of this module can point to.\<close>

datatype cfunction = Ptr_translate_file_reference_translate_url

datatype pyobj =
    PyNone
  | PyInt int
  | PyString string
  | PyTuple "pyobj list"
  | PyModule string
  | PyCFunction "cfunction option" int
  | PyCObject c_address string

text \<open>\<^verbatim>\<open>PyMethodDef\<close>: \<^verbatim>\<open>{name, meth, flags, doc}\<close>.\<close>

record PyMethodDef =
  ml_name :: "string option"
  ml_meth :: "cfunction option"
  ml_flags :: int
  ml_doc :: "string option"

definition METH_VARARGS :: int where
  "METH_VARARGS = 1"

subsection \<open>State\<close>

datatype api_call =
    Call_PyArg_ParseTuple pyobj string
  | Call_translate_url "pyobj option" string
  | Call_Py_InitModule3 string "PyMethodDef list" string
  | Call_PyCObject_FromVoidPtrAndDesc c_address string
  | Call_PyModule_AddObject pyobj string "pyobj option"
  | Call_PyString_FromString string
  | Call_Py_INCREF "pyobj option"

type_synonym module_dict = "string \<rightharpoonup> pyobj"

type_synonym modules = "string \<rightharpoonup> module_dict"

record state =
  module :: "pyobj option"
  sys_modules :: modules
  trace :: "api_call list"

text \<open>
  The state the interpreter starts the extension in: C zero-initialises the static
  \<^verbatim>\<open>module\<close>, and nothing has been called.
\<close>

definition initial_state :: "modules \<Rightarrow> state" where
  "initial_state ms = \<lparr>module = None, sys_modules = ms, trace = []\<rparr>"

text \<open>
  The code tests the results of \<^verbatim>\<open>Py_InitModule3\<close> and
  \<^verbatim>\<open>PyCObject_FromVoidPtrAndDesc\<close>; whether these two calls succeed is an input.
  Exhausted memory inside the interpreter is not part of the model, so
  \<^verbatim>\<open>PyString_FromString\<close> of the fixed docstring and \<^verbatim>\<open>PyModule_AddObject\<close> on a
  loaded module with a value that is not \<^verbatim>\<open>NULL\<close> succeed; the code uses their results
  unchecked.
\<close>

record py_env =
  module_creation_ok :: bool
  cobject_creation_ok :: bool

datatype c_fault = NullDereference

subsection \<open>The constants of the C file\<close>

definition docstring :: string where
  "docstring =
     ''Translate urls to file paths'' @ [CHR 0x0A] @
     [CHR 0x0A] @
     ''translate_file_reference.translate_url(url)'' @ [CHR 0x0A] @
     ''  Translate the given URL to a filesystem path.''"

definition translate_file_reference_methods :: "PyMethodDef list" where
  "translate_file_reference_methods =
     [\<lparr>ml_name = Some ''translate_url'',
       ml_meth = Some Ptr_translate_file_reference_translate_url,
       ml_flags = METH_VARARGS,
       ml_doc = Some ''Translate a url''\<rparr>,
      \<lparr>ml_name = None, ml_meth = None, ml_flags = 0, ml_doc = None\<rparr>]"

subsection \<open>What the code calls\<close>

text \<open>
  Modelled from the spec: \<^verbatim>\<open>PyArg_ParseTuple\<close> belongs to the interpreter and is not in
  the sources. For the format \<^verbatim>\<open>"s"\<close> of the one call the spec describes it as the
  standard validation of argument count and type, which fails when the argument is
  missing or not a string: it takes a tuple of exactly one string. The handler receives
  the string as a \<^verbatim>\<open>const char *\<close>, which ends at its first NUL byte, and the
  format \<^verbatim>\<open>"s"\<close> rejects a string with an embedded NUL byte; every other string it
  yields as it is.
\<close>

fun parse_s :: "pyobj \<Rightarrow> string option" where
  "parse_s (PyTuple [PyString s]) = (if CHR 0x00 \<in> set s then None else Some s)"
| "parse_s _ = None"

definition PyArg_ParseTuple_s :: "pyobj \<Rightarrow> state \<Rightarrow> string option \<times> state" where
  "PyArg_ParseTuple_s args st =
     (parse_s args, st\<lparr>trace := trace st @ [Call_PyArg_ParseTuple args ''s'']\<rparr>)"

text \<open>
  Modelled from the spec: \<^verbatim>\<open>translate_url\<close> is declared in the header and defined
  outside the sources; the spec calls it the external resolver and gives it no
  behaviour. It is the parameter \<open>impl\<close>: any function of the module pointer, the url
  and the loaded modules that returns an object or \<^verbatim>\<open>NULL\<close>. The static \<^verbatim>\<open>module\<close> of
  the C file is out of its reach.
\<close>

type_synonym resolver = "pyobj option \<Rightarrow> string \<Rightarrow> modules \<Rightarrow> pyobj option \<times> modules"

definition translate_url :: "resolver \<Rightarrow> pyobj option \<Rightarrow> string \<Rightarrow> state \<Rightarrow> pyobj option \<times> state" where
  "translate_url impl m url st =
     (case impl m url (sys_modules st) of
        (r, ms) \<Rightarrow>
          (r, st\<lparr>sys_modules := ms, trace := trace st @ [Call_translate_url m url]\<rparr>))"

text \<open>
  \<^verbatim>\<open>Py_InitModule3\<close> walks the method table up to the first entry without a name and
  binds each name to a function object in the module's dictionary, then sets
  \<^verbatim>\<open>__doc__\<close>. A failed call leaves the modules as they were.
\<close>

fun add_methods :: "module_dict \<Rightarrow> PyMethodDef list \<Rightarrow> module_dict" where
  "add_methods d [] = d"
| "add_methods d (ml # mls) =
     (case ml_name ml of
        None \<Rightarrow> d
      | Some n \<Rightarrow> add_methods (d(n \<mapsto> PyCFunction (ml_meth ml) (ml_flags ml))) mls)"

definition Py_InitModule3 ::
  "py_env \<Rightarrow> string \<Rightarrow> PyMethodDef list \<Rightarrow> string \<Rightarrow> state \<Rightarrow> pyobj option \<times> state" where
  "Py_InitModule3 env name methods doc st =
     (let st1 = st\<lparr>trace := trace st @ [Call_Py_InitModule3 name methods doc]\<rparr> in
      if module_creation_ok env then
        let d0 = (case sys_modules st name of
                    None \<Rightarrow> [''__name__'' \<mapsto> PyString name]
                  | Some d \<Rightarrow> d);
            d1 = add_methods d0 methods;
            d2 = d1(''__doc__'' \<mapsto> PyString doc)
        in (Some (PyModule name), st1\<lparr>sys_modules := (sys_modules st)(name \<mapsto> d2)\<rparr>)
      else (None, st1))"

text \<open>The destructor argument is \<^verbatim>\<open>NULL\<close> in the one call and is left out.\<close>

definition PyCObject_FromVoidPtrAndDesc ::
  "py_env \<Rightarrow> c_address \<Rightarrow> string \<Rightarrow> state \<Rightarrow> pyobj option \<times> state" where
  "PyCObject_FromVoidPtrAndDesc env p desc st =
     (let st1 = st\<lparr>trace := trace st @ [Call_PyCObject_FromVoidPtrAndDesc p desc]\<rparr> in
      if cobject_creation_ok env then (Some (PyCObject p desc), st1) else (None, st1))"

text \<open>
  \<^verbatim>\<open>PyModule_AddObject\<close> returns -1 when the first argument is not a module or the
  value is \<^verbatim>\<open>NULL\<close>, and 0 after storing the value under the name.
\<close>

definition PyModule_AddObject :: "pyobj \<Rightarrow> string \<Rightarrow> pyobj option \<Rightarrow> state \<Rightarrow> int \<times> state" where
  "PyModule_AddObject m name v st =
     (let st1 = st\<lparr>trace := trace st @ [Call_PyModule_AddObject m name v]\<rparr> in
      case m of
        PyModule mn \<Rightarrow>
          (case v of
             None \<Rightarrow> (- 1, st1)
           | Some w \<Rightarrow>
               (case sys_modules st mn of
                  None \<Rightarrow> (- 1, st1)
                | Some d \<Rightarrow> (0, st1\<lparr>sys_modules := (sys_modules st)(mn \<mapsto> d(name \<mapsto> w))\<rparr>)))
      | _ \<Rightarrow> (- 1, st1))"

definition PyString_FromString :: "string \<Rightarrow> state \<Rightarrow> pyobj option \<times> state" where
  "PyString_FromString s st =
     (Some (PyString s), st\<lparr>trace := trace st @ [Call_PyString_FromString s]\<rparr>)"

text \<open>
  \<^verbatim>\<open>Py_INCREF\<close> writes the reference count through its argument: on \<^verbatim>\<open>NULL\<close> that is a
  fault. Reference counts themselves are not part of the state.
\<close>

definition Py_INCREF :: "pyobj option \<Rightarrow> state \<Rightarrow> c_fault + state" where
  "Py_INCREF p st =
     (case p of
        None \<Rightarrow> Inl NullDereference
      | Some _ \<Rightarrow> Inr (st\<lparr>trace := trace st @ [Call_Py_INCREF p]\<rparr>))"

text \<open>
  \<^verbatim>\<open>PyCObject_Import\<close>, which the header's macro calls: the named attribute of the
  named loaded module, if it is a CObject, gives its pointer.
\<close>

definition PyCObject_Import :: "string \<Rightarrow> string \<Rightarrow> state \<Rightarrow> c_address option" where
  "PyCObject_Import module_name name st =
     (case sys_modules st module_name of
        None \<Rightarrow> None
      | Some d \<Rightarrow>
          (case d name of
             Some (PyCObject p desc) \<Rightarrow> Some p
           | _ \<Rightarrow> None))"

subsection \<open>The handler\<close>

definition translate_file_reference_translate_url ::
  "resolver \<Rightarrow> pyobj option \<Rightarrow> pyobj \<Rightarrow> state \<Rightarrow> pyobj option \<times> state" where
  "translate_file_reference_translate_url impl self args st =
     (case PyArg_ParseTuple_s args st of
        (None, st1) \<Rightarrow> (None, st1)
      | (Some url, st1) \<Rightarrow> translate_url impl (module st1) url st1)"

text \<open>What a function pointer of a method table runs.\<close>

fun cfunction_body ::
  "cfunction \<Rightarrow> resolver \<Rightarrow> pyobj option \<Rightarrow> pyobj \<Rightarrow> state \<Rightarrow> pyobj option \<times> state" where
  "cfunction_body Ptr_translate_file_reference_translate_url =
     translate_file_reference_translate_url"

text \<open>The calls into the resolver among a sequence of calls, in order.\<close>

fun resolver_calls :: "api_call list \<Rightarrow> (pyobj option \<times> string) list" where
  "resolver_calls [] = []"
| "resolver_calls (Call_translate_url m url # cs) = (m, url) # resolver_calls cs"
| "resolver_calls (_ # cs) = resolver_calls cs"

subsection \<open>Module initialisation\<close>

definition inittranslate_file_reference :: "py_env \<Rightarrow> state \<Rightarrow> c_fault + state" where
  "inittranslate_file_reference env st =
     (case Py_InitModule3 env ''translate_file_reference'' translate_file_reference_methods
             ''Translate file paths'' st of
        (r, st1) \<Rightarrow>
          let st2 = st1\<lparr>module := r\<rparr> in
          (case module st2 of
             None \<Rightarrow> Inr st2
           | Some m \<Rightarrow>
               (case PyCObject_FromVoidPtrAndDesc env Addr_Py_translate_file_reference_api
                       ''translate_file_reference.translate_file_reference_CAPI'' st2 of
                  (c_api_object, st3) \<Rightarrow>
                    let st4 = (if c_api_object \<noteq> None
                               then snd (PyModule_AddObject m ''translate_file_reference_CAPI''
                                           c_api_object st3)
                               else st3) in
                    (case PyString_FromString docstring st4 of
                       (docs, st5) \<Rightarrow>
                         (case Py_INCREF docs st5 of
                            Inl f \<Rightarrow> Inl f
                          | Inr st6 \<Rightarrow> Inr (snd (PyModule_AddObject m ''__doc__'' docs st6)))))))"

text \<open>
  The header's macro \<^verbatim>\<open>Py_TRANSLATE_FILE_REFERENCE_IMPORT\<close>, for code outside the
  module: the pointer it assigns.
\<close>

definition Py_TRANSLATE_FILE_REFERENCE_IMPORT :: "state \<Rightarrow> c_address option" where
  "Py_TRANSLATE_FILE_REFERENCE_IMPORT st =
     PyCObject_Import ''translate_file_reference'' ''translate_file_reference_CAPI'' st"

text \<open>The attribute of a loaded module, as the scripting host reads it.\<close>

definition module_attr :: "state \<Rightarrow> string \<Rightarrow> string \<Rightarrow> pyobj option" where
  "module_attr st module_name name =
     (case sys_modules st module_name of None \<Rightarrow> None | Some d \<Rightarrow> d name)"

text \<open>The calls of \<^verbatim>\<open>PyModule_AddObject\<close> among a sequence of calls, in order.\<close>

fun attributes_added :: "api_call list \<Rightarrow> (pyobj \<times> string \<times> pyobj option) list" where
  "attributes_added [] = []"
| "attributes_added (Call_PyModule_AddObject m name v # cs) = (m, name, v) # attributes_added cs"
| "attributes_added (_ # cs) = attributes_added cs"

text \<open>
  A resolver for concrete runs: it answers every url with a path object and leaves the
  loaded modules as they are.
\<close>

definition sample_resolver :: resolver where
  "sample_resolver m url ms = (Some (PyString (''/mnt'' @ url)), ms)"

section \<open>Properties of the handler\<close>



lemma resolver_calls_append:
  "resolver_calls (xs @ ys) = resolver_calls xs @ resolver_calls ys"
  by (induction xs rule: resolver_calls.induct) simp_all





text \<open>
  C2. When the arguments parse, the handler returns the very value the resolver
  returns for the parsed string, whether an object or \<^verbatim>\<open>NULL\<close>.
\<close>

theorem wrapper_returns_resolver_value:
  "fst (PyArg_ParseTuple_s args st) = Some url \<Longrightarrow>
   fst (translate_file_reference_translate_url impl self args st)
     = fst (translate_url impl (module st) url (snd (PyArg_ParseTuple_s args st))) \<and>
   fst (translate_file_reference_translate_url impl self args st)
     = fst (impl (module st) url (sys_modules st))"
  by (simp add: translate_file_reference_translate_url_def PyArg_ParseTuple_s_def
      translate_url_def split: prod.splits)

theorem wrapper_returns_resolver_value_witness:
  "fst (PyArg_ParseTuple_s (PyTuple [PyString ''/a'']) (initial_state Map.empty)) = Some ''/a'' \<and>
   fst (translate_file_reference_translate_url
          (\<lambda>m url ms. (if url = ''/a'' then None else Some (PyString url), ms))
          None (PyTuple [PyString ''/a'']) (initial_state Map.empty)) = None \<and>
   fst (translate_file_reference_translate_url
          (\<lambda>m url ms. (Some (PyString (''/mnt'' @ url)), ms))
          None (PyTuple [PyString ''/a'']) (initial_state Map.empty)) = Some (PyString ''/mnt/a'')"
  using
    wrapper_returns_resolver_value
      [of "PyTuple [PyString ''/a'']" "initial_state Map.empty" "''/a''"
          "\<lambda>m url ms. (if url = ''/a'' then None else Some (PyString url), ms)" None]
    wrapper_returns_resolver_value
      [of "PyTuple [PyString ''/a'']" "initial_state Map.empty" "''/a''"
          "\<lambda>m url ms. (Some (PyString (''/mnt'' @ url)), ms)" None]
  by (simp add: PyArg_ParseTuple_s_def translate_url_def initial_state_def)

text \<open>
  C3, as the claim states it, fails: on a single string argument with an embedded NUL
  byte the parse fails, and the handler makes no call into the resolver.
\<close>

theorem wrapper_forwards_no_string_with_nul_counterexample:
  "fst (PyArg_ParseTuple_s (PyTuple [PyString [CHR ''x'', CHR 0x00]])
          (initial_state Map.empty)) = None \<and>
   trace (snd (translate_file_reference_translate_url sample_resolver None
          (PyTuple [PyString [CHR ''x'', CHR 0x00]]) (initial_state Map.empty)))
     = [Call_PyArg_ParseTuple (PyTuple [PyString [CHR ''x'', CHR 0x00]]) ''s''] \<and>
   resolver_calls (trace (snd (translate_file_reference_translate_url sample_resolver None
          (PyTuple [PyString [CHR ''x'', CHR 0x00]]) (initial_state Map.empty))))
     = []"
  by (simp add: translate_file_reference_translate_url_def PyArg_ParseTuple_s_def
      initial_state_def)

text \<open>
  C3, amended. On a single string argument free of NUL bytes the handler parses that
  string and makes one call into the resolver, with the static \<^verbatim>\<open>module\<close> and the
  string as it was given; the handler's result and state are those of that call.
\<close>

theorem wrapper_forwards_string_once:
  "CHR 0x00 \<notin> set s \<Longrightarrow>
   fst (PyArg_ParseTuple_s (PyTuple [PyString s]) st) = Some s \<and>
   translate_file_reference_translate_url impl self (PyTuple [PyString s]) st
     = translate_url impl (module st) s (snd (PyArg_ParseTuple_s (PyTuple [PyString s]) st)) \<and>
   trace (snd (translate_file_reference_translate_url impl self (PyTuple [PyString s]) st))
     = trace st @ [Call_PyArg_ParseTuple (PyTuple [PyString s]) ''s'',
                   Call_translate_url (module st) s] \<and>
   resolver_calls (trace (snd (translate_file_reference_translate_url impl self
       (PyTuple [PyString s]) st)))
     = resolver_calls (trace st) @ [(module st, s)]"
  by (simp add: translate_file_reference_translate_url_def PyArg_ParseTuple_s_def
      translate_url_def resolver_calls_append split: prod.splits)

theorem wrapper_forwards_string_once_witness:
  "CHR 0x00 \<notin> set ''file:///a'' \<and>
   fst (PyArg_ParseTuple_s (PyTuple [PyString ''file:///a'']) (initial_state Map.empty))
     = Some ''file:///a'' \<and>
   trace (snd (translate_file_reference_translate_url sample_resolver (Some PyNone)
          (PyTuple [PyString ''file:///a'']) (initial_state Map.empty)))
     = [Call_PyArg_ParseTuple (PyTuple [PyString ''file:///a'']) ''s'',
        Call_translate_url None ''file:///a''] \<and>
   resolver_calls (trace (snd (translate_file_reference_translate_url sample_resolver
          (Some PyNone) (PyTuple [PyString ''file:///a'']) (initial_state Map.empty))))
     = [(None, ''file:///a'')]"
  using wrapper_forwards_string_once
    [of "''file:///a''" "initial_state Map.empty" sample_resolver "Some PyNone"]
  by (simp add: initial_state_def PyArg_ParseTuple_s_def translate_url_def
      sample_resolver_def)

text \<open>
  C9. The handler's result and state do not depend on \<^verbatim>\<open>self\<close>: two calls that differ
  only in \<^verbatim>\<open>self\<close> agree, and the resolver, when called, gets the static \<^verbatim>\<open>module\<close>.
\<close>

theorem handler_ignores_self:
  "translate_file_reference_translate_url impl self1 args st
     = translate_file_reference_translate_url impl self2 args st \<and>
   resolver_calls (trace (snd (translate_file_reference_translate_url impl self1 args st)))
     = resolver_calls (trace st) @
         (case fst (PyArg_ParseTuple_s args st) of
            None \<Rightarrow> []
          | Some url \<Rightarrow> [(module st, url)])"
  by (simp add: translate_file_reference_translate_url_def PyArg_ParseTuple_s_def
      translate_url_def resolver_calls_append split: prod.splits option.splits)

section \<open>Properties of the method table and of the initialisation\<close>

lemma attributes_added_append:
  "attributes_added (xs @ ys) = attributes_added xs @ attributes_added ys"
  by (induction xs rule: attributes_added.induct) simp_all

lemma add_methods_table:
  "add_methods d translate_file_reference_methods =
     d(''translate_url'' \<mapsto>
         PyCFunction (Some Ptr_translate_file_reference_translate_url) METH_VARARGS)"
  by (simp add: translate_file_reference_methods_def)

lemma init_module_creation_fails:
  "\<not> module_creation_ok env \<Longrightarrow>
   inittranslate_file_reference env st =
     Inr (st\<lparr>module := None,
             trace := trace st @ [Call_Py_InitModule3 ''translate_file_reference''
               translate_file_reference_methods ''Translate file paths'']\<rparr>)"
  by (simp add: inittranslate_file_reference_def Py_InitModule3_def)

lemma init_with_cobject:
  assumes "module_creation_ok env" and "cobject_creation_ok env"
  shows "inittranslate_file_reference env st =
     Inr (st\<lparr>module := Some (PyModule ''translate_file_reference''),
             sys_modules := (sys_modules st)(''translate_file_reference'' \<mapsto>
               (add_methods
                  (case sys_modules st ''translate_file_reference'' of
                     None \<Rightarrow> [''__name__'' \<mapsto> PyString ''translate_file_reference'']
                   | Some d \<Rightarrow> d)
                  translate_file_reference_methods)
               (''__doc__'' \<mapsto> PyString ''Translate file paths'',
                ''translate_file_reference_CAPI'' \<mapsto>
                  PyCObject Addr_Py_translate_file_reference_api
                    ''translate_file_reference.translate_file_reference_CAPI'',
                ''__doc__'' \<mapsto> PyString docstring)),
             trace := trace st @
               [Call_Py_InitModule3 ''translate_file_reference''
                  translate_file_reference_methods ''Translate file paths'',
                Call_PyCObject_FromVoidPtrAndDesc Addr_Py_translate_file_reference_api
                  ''translate_file_reference.translate_file_reference_CAPI'',
                Call_PyModule_AddObject (PyModule ''translate_file_reference'')
                  ''translate_file_reference_CAPI''
                  (Some (PyCObject Addr_Py_translate_file_reference_api
                    ''translate_file_reference.translate_file_reference_CAPI'')),
                Call_PyString_FromString docstring,
                Call_Py_INCREF (Some (PyString docstring)),
                Call_PyModule_AddObject (PyModule ''translate_file_reference'')
                  ''__doc__'' (Some (PyString docstring))]\<rparr>)"
  using assms
  by (simp add: inittranslate_file_reference_def Py_InitModule3_def
      PyCObject_FromVoidPtrAndDesc_def PyModule_AddObject_def PyString_FromString_def
      Py_INCREF_def Let_def del: add_methods.simps)

lemma init_without_cobject:
  assumes "module_creation_ok env" and "\<not> cobject_creation_ok env"
  shows "inittranslate_file_reference env st =
     Inr (st\<lparr>module := Some (PyModule ''translate_file_reference''),
             sys_modules := (sys_modules st)(''translate_file_reference'' \<mapsto>
               (add_methods
                  (case sys_modules st ''translate_file_reference'' of
                     None \<Rightarrow> [''__name__'' \<mapsto> PyString ''translate_file_reference'']
                   | Some d \<Rightarrow> d)
                  translate_file_reference_methods)
               (''__doc__'' \<mapsto> PyString ''Translate file paths'',
                ''__doc__'' \<mapsto> PyString docstring)),
             trace := trace st @
               [Call_Py_InitModule3 ''translate_file_reference''
                  translate_file_reference_methods ''Translate file paths'',
                Call_PyCObject_FromVoidPtrAndDesc Addr_Py_translate_file_reference_api
                  ''translate_file_reference.translate_file_reference_CAPI'',
                Call_PyString_FromString docstring,
                Call_Py_INCREF (Some (PyString docstring)),
                Call_PyModule_AddObject (PyModule ''translate_file_reference'')
                  ''__doc__'' (Some (PyString docstring))]\<rparr>)"
  using assms
  by (simp add: inittranslate_file_reference_def Py_InitModule3_def
      PyCObject_FromVoidPtrAndDesc_def PyModule_AddObject_def PyString_FromString_def
      Py_INCREF_def Let_def del: add_methods.simps)

lemma init_module_created:
  assumes "module_creation_ok env"
  shows "\<exists>st' pre. inittranslate_file_reference env st = Inr st' \<and>
     module_attr st' ''translate_file_reference'' ''__doc__'' = Some (PyString docstring) \<and>
     module_attr st' ''translate_file_reference'' ''translate_url''
       = Some (PyCFunction (Some Ptr_translate_file_reference_translate_url) METH_VARARGS) \<and>
     trace st' = pre @
       [Call_PyString_FromString docstring,
        Call_Py_INCREF (Some (PyString docstring)),
        Call_PyModule_AddObject (PyModule ''translate_file_reference'') ''__doc__''
          (Some (PyString docstring))]"
proof (cases "cobject_creation_ok env")
  case True
  with assms show ?thesis
    by (simp add: init_with_cobject module_attr_def add_methods_table del: add_methods.simps)
next
  case False
  with assms show ?thesis
    by (simp add: init_without_cobject module_attr_def add_methods_table del: add_methods.simps)
qed

text \<open>
  C4. The method table has two entries: the one named entry, which maps the exported
  name \<^verbatim>\<open>translate_url\<close> to the handler \<^verbatim>\<open>translate_file_reference_translate_url\<close>,
  and the terminator with no name. Registering the table binds that one name and no
  other, and after a successful initialisation the host finds the handler under it.
\<close>

theorem method_table_exposes_translate_url:
  "translate_file_reference_methods =
     [\<lparr>ml_name = Some ''translate_url'',
       ml_meth = Some Ptr_translate_file_reference_translate_url,
       ml_flags = METH_VARARGS,
       ml_doc = Some ''Translate a url''\<rparr>,
      \<lparr>ml_name = None, ml_meth = None, ml_flags = 0, ml_doc = None\<rparr>] \<and>
   map ml_name translate_file_reference_methods = [Some ''translate_url'', None] \<and>
   add_methods d translate_file_reference_methods =
     d(''translate_url'' \<mapsto>
         PyCFunction (Some Ptr_translate_file_reference_translate_url) METH_VARARGS) \<and>
   cfunction_body Ptr_translate_file_reference_translate_url
     = translate_file_reference_translate_url \<and>
   (module_creation_ok env \<longrightarrow>
     (\<exists>st'. inittranslate_file_reference env st = Inr st' \<and>
        module_attr st' ''translate_file_reference'' ''translate_url''
          = Some (PyCFunction (Some Ptr_translate_file_reference_translate_url)
                    METH_VARARGS)))"
proof -
  have table: "translate_file_reference_methods =
     [\<lparr>ml_name = Some ''translate_url'',
       ml_meth = Some Ptr_translate_file_reference_translate_url,
       ml_flags = METH_VARARGS,
       ml_doc = Some ''Translate a url''\<rparr>,
      \<lparr>ml_name = None, ml_meth = None, ml_flags = 0, ml_doc = None\<rparr>]"
    by (simp add: translate_file_reference_methods_def)
  have names: "map ml_name translate_file_reference_methods = [Some ''translate_url'', None]"
    by (simp add: translate_file_reference_methods_def)
  have body: "cfunction_body Ptr_translate_file_reference_translate_url
     = translate_file_reference_translate_url"
    by simp
  have host: "module_creation_ok env \<longrightarrow>
     (\<exists>st'. inittranslate_file_reference env st = Inr st' \<and>
        module_attr st' ''translate_file_reference'' ''translate_url''
          = Some (PyCFunction (Some Ptr_translate_file_reference_translate_url)
                    METH_VARARGS))"
    using init_module_created [of env st] by blast
  from table names add_methods_table [of d] body host show ?thesis
    by blast
qed

theorem method_table_exposes_translate_url_witness:
  "module_creation_ok \<lparr>module_creation_ok = True, cobject_creation_ok = False\<rparr> \<and>
   (\<exists>st'. inittranslate_file_reference
             \<lparr>module_creation_ok = True, cobject_creation_ok = False\<rparr>
             (initial_state Map.empty) = Inr st' \<and>
      module_attr st' ''translate_file_reference'' ''translate_url''
        = Some (PyCFunction (Some Ptr_translate_file_reference_translate_url) METH_VARARGS))"
  using method_table_exposes_translate_url
    [of Map.empty "\<lparr>module_creation_ok = True, cobject_creation_ok = False\<rparr>"
        "initial_state Map.empty"]
  by simp

text \<open>
  C5. When the module and the capability object are created, the initialisation adds
  the capability object, which holds the address of the static capability struct, to
  the module \<^verbatim>\<open>translate_file_reference\<close> under the name
  \<^verbatim>\<open>translate_file_reference_CAPI\<close>. These are the two names of the header's import
  macro, which therefore retrieves that address.
\<close>

theorem capability_table_exported:
  "module_creation_ok env \<Longrightarrow> cobject_creation_ok env \<Longrightarrow>
   \<exists>st'. inittranslate_file_reference env st = Inr st' \<and>
     module st' = Some (PyModule ''translate_file_reference'') \<and>
     module_attr st' ''translate_file_reference'' ''translate_file_reference_CAPI''
       = Some (PyCObject Addr_Py_translate_file_reference_api
                 ''translate_file_reference.translate_file_reference_CAPI'') \<and>
     Py_TRANSLATE_FILE_REFERENCE_IMPORT st' = Some Addr_Py_translate_file_reference_api \<and>
     attributes_added (trace st') = attributes_added (trace st) @
       [(PyModule ''translate_file_reference'', ''translate_file_reference_CAPI'',
           Some (PyCObject Addr_Py_translate_file_reference_api
                   ''translate_file_reference.translate_file_reference_CAPI'')),
        (PyModule ''translate_file_reference'', ''__doc__'', Some (PyString docstring))]"
  by (simp add: init_with_cobject module_attr_def Py_TRANSLATE_FILE_REFERENCE_IMPORT_def
      PyCObject_Import_def attributes_added_append)

theorem capability_table_exported_witness:
  "module_creation_ok \<lparr>module_creation_ok = True, cobject_creation_ok = True\<rparr> \<and>
   cobject_creation_ok \<lparr>module_creation_ok = True, cobject_creation_ok = True\<rparr> \<and>
   (\<exists>st'. inittranslate_file_reference
             \<lparr>module_creation_ok = True, cobject_creation_ok = True\<rparr>
             (initial_state Map.empty) = Inr st' \<and>
      Py_TRANSLATE_FILE_REFERENCE_IMPORT st' = Some Addr_Py_translate_file_reference_api)"
  using capability_table_exported
    [of "\<lparr>module_creation_ok = True, cobject_creation_ok = True\<rparr>" "initial_state Map.empty"]
  by auto

text \<open>
  C6. When the module is created, the initialisation ends by creating a string from
  the constant \<^verbatim>\<open>docstring\<close> and adding it to the module as \<^verbatim>\<open>__doc__\<close>, so that
  \<^verbatim>\<open>__doc__\<close> is that text afterwards. The text names
  \<^verbatim>\<open>translate_file_reference.translate_url(url)\<close> and says that it translates the given
  URL to a filesystem path.
\<close>

theorem docstring_registered:
  "module_creation_ok env \<Longrightarrow>
   \<exists>st' pre. inittranslate_file_reference env st = Inr st' \<and>
     module_attr st' ''translate_file_reference'' ''__doc__'' = Some (PyString docstring) \<and>
     trace st' = pre @
       [Call_PyString_FromString docstring,
        Call_Py_INCREF (Some (PyString docstring)),
        Call_PyModule_AddObject (PyModule ''translate_file_reference'') ''__doc__''
          (Some (PyString docstring))] \<and>
     docstring =
       ''Translate urls to file paths'' @ [CHR 0x0A] @ [CHR 0x0A] @
       ''translate_file_reference.translate_url(url)'' @ [CHR 0x0A] @
       ''  Translate the given URL to a filesystem path.''"
proof -
  assume "module_creation_ok env"
  from init_module_created [OF this, of st] obtain st' pre where
    "inittranslate_file_reference env st = Inr st'"
    "module_attr st' ''translate_file_reference'' ''__doc__'' = Some (PyString docstring)"
    "trace st' = pre @
       [Call_PyString_FromString docstring,
        Call_Py_INCREF (Some (PyString docstring)),
        Call_PyModule_AddObject (PyModule ''translate_file_reference'') ''__doc__''
          (Some (PyString docstring))]"
    by blast
  moreover have "docstring =
       ''Translate urls to file paths'' @ [CHR 0x0A] @ [CHR 0x0A] @
       ''translate_file_reference.translate_url(url)'' @ [CHR 0x0A] @
       ''  Translate the given URL to a filesystem path.''"
    by (simp add: docstring_def)
  ultimately show ?thesis
    by blast
qed

theorem docstring_registered_witness:
  "module_creation_ok \<lparr>module_creation_ok = True, cobject_creation_ok = True\<rparr> \<and>
   (\<exists>st'. inittranslate_file_reference
             \<lparr>module_creation_ok = True, cobject_creation_ok = True\<rparr>
             (initial_state Map.empty) = Inr st' \<and>
      module_attr st' ''translate_file_reference'' ''__doc__'' = Some (PyString docstring))"
  using docstring_registered
    [of "\<lparr>module_creation_ok = True, cobject_creation_ok = True\<rparr>" "initial_state Map.empty"]
  by auto

text \<open>
  C7. When \<^verbatim>\<open>Py_InitModule3\<close> returns \<^verbatim>\<open>NULL\<close>, the initialisation returns at once:
  that call is the only one it makes, so no capability object and no docstring is
  created or added, the loaded modules are as before, and the static \<^verbatim>\<open>module\<close> is
  \<^verbatim>\<open>NULL\<close>.
\<close>

theorem failed_module_creation_stops_init:
  "\<not> module_creation_ok env \<Longrightarrow>
   \<exists>st'. inittranslate_file_reference env st = Inr st' \<and>
     module st' = None \<and>
     sys_modules st' = sys_modules st \<and>
     trace st' = trace st @ [Call_Py_InitModule3 ''translate_file_reference''
                   translate_file_reference_methods ''Translate file paths''] \<and>
     attributes_added (trace st') = attributes_added (trace st)"
  by (simp add: init_module_creation_fails attributes_added_append)

theorem failed_module_creation_stops_init_witness:
  "\<not> module_creation_ok \<lparr>module_creation_ok = False, cobject_creation_ok = True\<rparr> \<and>
   (\<exists>st'. inittranslate_file_reference
             \<lparr>module_creation_ok = False, cobject_creation_ok = True\<rparr>
             (initial_state Map.empty) = Inr st' \<and>
      module st' = module (initial_state Map.empty) \<and>
      module st' = None \<and>
      sys_modules st' = Map.empty \<and>
      trace st' = [Call_Py_InitModule3 ''translate_file_reference''
                     translate_file_reference_methods ''Translate file paths''])"
  using failed_module_creation_stops_init
    [of "\<lparr>module_creation_ok = False, cobject_creation_ok = True\<rparr>" "initial_state Map.empty"]
  by (auto simp: initial_state_def)

text \<open>
  C8. When the module is created and the capability object is \<^verbatim>\<open>NULL\<close>, the
  initialisation goes on: it does not add \<^verbatim>\<open>translate_file_reference_CAPI\<close>, whose
  attribute stays what it was, and it still creates the docstring and adds it as
  \<^verbatim>\<open>__doc__\<close>.
\<close>

theorem failed_cobject_keeps_docstring:
  "module_creation_ok env \<Longrightarrow> \<not> cobject_creation_ok env \<Longrightarrow>
   \<exists>st'. inittranslate_file_reference env st = Inr st' \<and>
     trace st' = trace st @
       [Call_Py_InitModule3 ''translate_file_reference''
          translate_file_reference_methods ''Translate file paths'',
        Call_PyCObject_FromVoidPtrAndDesc Addr_Py_translate_file_reference_api
          ''translate_file_reference.translate_file_reference_CAPI'',
        Call_PyString_FromString docstring,
        Call_Py_INCREF (Some (PyString docstring)),
        Call_PyModule_AddObject (PyModule ''translate_file_reference'')
          ''__doc__'' (Some (PyString docstring))] \<and>
     attributes_added (trace st') = attributes_added (trace st) @
       [(PyModule ''translate_file_reference'', ''__doc__'', Some (PyString docstring))] \<and>
     module_attr st' ''translate_file_reference'' ''translate_file_reference_CAPI''
       = module_attr st ''translate_file_reference'' ''translate_file_reference_CAPI'' \<and>
     Py_TRANSLATE_FILE_REFERENCE_IMPORT st' = Py_TRANSLATE_FILE_REFERENCE_IMPORT st \<and>
     module_attr st' ''translate_file_reference'' ''__doc__'' = Some (PyString docstring)"
  by (simp add: init_without_cobject module_attr_def Py_TRANSLATE_FILE_REFERENCE_IMPORT_def
      PyCObject_Import_def attributes_added_append add_methods_table
      del: add_methods.simps split: option.splits)

theorem failed_cobject_keeps_docstring_witness:
  "module_creation_ok \<lparr>module_creation_ok = True, cobject_creation_ok = False\<rparr> \<and>
   \<not> cobject_creation_ok \<lparr>module_creation_ok = True, cobject_creation_ok = False\<rparr> \<and>
   (\<exists>st'. inittranslate_file_reference
             \<lparr>module_creation_ok = True, cobject_creation_ok = False\<rparr>
             (initial_state Map.empty) = Inr st' \<and>
      module_attr st' ''translate_file_reference'' ''translate_file_reference_CAPI'' = None \<and>
      Py_TRANSLATE_FILE_REFERENCE_IMPORT st' = None \<and>
      module_attr st' ''translate_file_reference'' ''__doc__'' = Some (PyString docstring))"
  using failed_cobject_keeps_docstring
    [of "\<lparr>module_creation_ok = True, cobject_creation_ok = False\<rparr>" "initial_state Map.empty"]
  by (auto simp: initial_state_def module_attr_def Py_TRANSLATE_FILE_REFERENCE_IMPORT_def
      PyCObject_Import_def)

end
